theory Spec2Isabelle
  imports Main
begin

section \<open>The profile manager of Firebot (src/backend/common/profile-manager.ts)\<close>

text \<open>
  The class \<^verbatim>\<open>ProfileManager\<close> keeps two fields in process memory
  (\<^verbatim>\<open>loggedInUser\<close>, \<^verbatim>\<open>profileToRename\<close>) and works on three collaborators:
  the global settings store, the directory tree of the profiles and the restart of
  the application. Every method is embedded as a function from the state before the
  call to the state after it, together with the way the call ended.
\<close>

subsection \<open>The settings store\<close>

text \<open>
  Modelled from the spec: \<^verbatim>\<open>SettingsManager\<close> (settings-manager.ts) is a durable
  key-value store for a small fixed set of global keys with get, save and delete, where
  get fails when the key is absent. The three keys the profile manager uses are the
  fields below; \<open>None\<close> is an absent key, on which \<^verbatim>\<open>getSetting\<close> throws. Save and
  delete do not throw; deleting an absent key changes nothing.
\<close>

record settings_store =
  LoggedInProfile :: "string option"
  ActiveProfiles :: "string list option"
  DeleteProfile :: "string option"

subsection \<open>The process state\<close>

text \<open>
  \<open>loggedInUser\<close> and \<open>profileToRename\<close> are the two fields of the class: they live in
  the memory of the process. \<open>bootstrapProfiles\<close> is what
  \<^verbatim>\<open>getJsonDbInUserData("./global-settings").getData("./activeProfiles")\<close> yields
  (\<open>None\<close> when it throws), and \<open>fs\<close> is the directory tree, of a type the file
  system calls of the environment work on.
\<close>

record 'fs state =
  settings :: settings_store
  loggedInUser :: "string option"
  profileToRename :: "string option"
  bootstrapProfiles :: "string list option"
  fs :: 'fs

text \<open>
  A file system call either completes or throws; both leave a directory tree behind.
\<close>

datatype 'fs fs_result = Done 'fs | Threw 'fs

text \<open>
  The functions that are imported from outside the repository or from files that are
  not part of the sources at hand are parameters of the model: \<^verbatim>\<open>sanitizeFileName\<close>
  of the package sanitize-filename, \<^verbatim>\<open>fs.renameSync\<close> of Node, and
  \<^verbatim>\<open>dataAccess.deleteFolderRecursive\<close>.
\<close>

record 'fs env =
  sanitizeFileName :: "string \<Rightarrow> string"
  renameSync :: "string \<Rightarrow> string \<Rightarrow> 'fs \<Rightarrow> 'fs fs_result"
  deleteFolderRecursive :: "string \<Rightarrow> 'fs \<Rightarrow> 'fs fs_result"

text \<open>
  Modelled from the spec: \<^verbatim>\<open>restartApp\<close> (app-helpers.ts) is a terminal action, no
  code after it runs in this process. A call therefore ends in one of two ways: it
  returns a value, or the application was restarted.
\<close>

datatype 'a outcome = Returned 'a | Restarted

subsection \<open>Helpers of the language\<close>

text \<open>The decimal numeral a template literal prints for a counter.\<close>

definition digit :: "nat \<Rightarrow> char" where
  "digit d = ''0123456789'' ! d"

fun string_of_nat :: "nat \<Rightarrow> string" where
  "string_of_nat n =
     (if n < 10 then [digit n] else string_of_nat (n div 10) @ [digit (n mod 10)])"

declare string_of_nat.simps [simp del]

text \<open>\<^verbatim>\<open>Array.prototype.indexOf\<close>: the first position of the element, or -1.\<close>

fun indexOf :: "string list \<Rightarrow> string \<Rightarrow> int" where
  "indexOf [] x = -1"
| "indexOf (y # ys) x =
     (if y = x then 0 else (let i = indexOf ys x in if i < 0 then -1 else i + 1))"

text \<open>
  \<^verbatim>\<open>a[i] = v\<close>. A negative index names a property of the array object, not an
  element, so the elements stay as they are; an index from the length on extends
  the array (with holes before the new element when it lies beyond the length, which
  no caller here produces: they pass a result of \<open>indexOf\<close>).
\<close>

definition assign_at :: "string list \<Rightarrow> int \<Rightarrow> string \<Rightarrow> string list" where
  "assign_at xs i v =
     (if i < 0 then xs
      else if i < int (length xs) then xs[nat i := v]
      else xs @ replicate (nat i - length xs) [] @ [v])"

text \<open>\<^verbatim>\<open>a.splice(i, 1)\<close> for a position \<open>i > -1\<close>: the element there is dropped.\<close>

definition splice1 :: "string list \<Rightarrow> int \<Rightarrow> string list" where
  "splice1 xs i = take (nat i) xs @ drop (nat i + 1) xs"

text \<open>The path of a profile's directory below the user data folder.\<close>

definition profilePath :: "string \<Rightarrow> string" where
  "profilePath profileId = ''/profiles/'' @ profileId"

subsection \<open>Saving and deleting settings\<close>

definition save_LoggedInProfile :: "string \<Rightarrow> 'fs state \<Rightarrow> 'fs state" where
  "save_LoggedInProfile v st = st\<lparr>settings := (settings st)\<lparr>LoggedInProfile := Some v\<rparr>\<rparr>"

definition save_ActiveProfiles :: "string list \<Rightarrow> 'fs state \<Rightarrow> 'fs state" where
  "save_ActiveProfiles v st = st\<lparr>settings := (settings st)\<lparr>ActiveProfiles := Some v\<rparr>\<rparr>"

definition save_DeleteProfile :: "string \<Rightarrow> 'fs state \<Rightarrow> 'fs state" where
  "save_DeleteProfile v st = st\<lparr>settings := (settings st)\<lparr>DeleteProfile := Some v\<rparr>\<rparr>"

definition delete_LoggedInProfile :: "'fs state \<Rightarrow> 'fs state" where
  "delete_LoggedInProfile st = st\<lparr>settings := (settings st)\<lparr>LoggedInProfile := None\<rparr>\<rparr>"

definition delete_DeleteProfile :: "'fs state \<Rightarrow> 'fs state" where
  "delete_DeleteProfile st = st\<lparr>settings := (settings st)\<lparr>DeleteProfile := None\<rparr>\<rparr>"

text \<open>
  \<^verbatim>\<open>getSetting("ActiveProfiles")\<close> inside a \<^verbatim>\<open>try\<close> whose \<^verbatim>\<open>catch\<close> keeps the
  empty array the variable was initialised with (createNewProfile, renameProfile).
\<close>

definition activeProfiles_or_empty :: "'fs state \<Rightarrow> string list" where
  "activeProfiles_or_empty st =
     (case ActiveProfiles (settings st) of None \<Rightarrow> [] | Some xs \<Rightarrow> xs)"

subsection \<open>The methods\<close>

text \<open>
  The loop of createNewProfile (lines 112 to 116) and of renameProfile (lines 183 to
  187), which are the same text:
  \<^verbatim>\<open>while (activeProfiles.includes(profileId)) { profileId = `${profileId}${counter}`; counter++; }\<close>
  The candidate grows in every round and the list is finite, so the loop ends, after
  at most as many rounds as the list has elements: the counter stays an exact integer
  and is modelled as a natural number.
\<close>

function collision_loop :: "string list \<Rightarrow> string \<Rightarrow> nat \<Rightarrow> string" where
  "collision_loop activeProfiles profileId counter =
     (if profileId \<in> set activeProfiles
      then collision_loop activeProfiles (profileId @ string_of_nat counter) (counter + 1)
      else profileId)"
  by pat_completeness auto

termination collision_loop
proof (relation "measure (\<lambda>(ps, p, c). Suc (sum_list (map length ps)) - length p)")
  show "wf (measure (\<lambda>(ps, p, c). Suc (sum_list (map length ps)) - length p))"
    by simp
next
  fix activeProfiles :: "string list" and profileId :: string and counter :: nat
  assume mem: "profileId \<in> set activeProfiles"
  have bound: "x \<in> set xs \<Longrightarrow> length x \<le> sum_list (map length xs)"
    for x :: string and xs
    by (induction xs) auto
  have "length profileId \<le> sum_list (map length activeProfiles)"
    using mem by (rule bound)
  moreover have "string_of_nat counter \<noteq> []"
    by (subst string_of_nat.simps) simp
  then have "Suc 0 \<le> length (string_of_nat counter)"
    by (cases "string_of_nat counter") simp_all
  ultimately show "((activeProfiles, profileId @ string_of_nat counter, counter + 1),
      (activeProfiles, profileId, counter))
    \<in> measure (\<lambda>(ps, p, c). Suc (sum_list (map length ps)) - length p)"
    by simp
qed

declare collision_loop.simps [simp del]

text \<open>logInProfile (lines 45 to 51): save the id as LoggedInProfile, then restart.\<close>

definition logInProfile :: "string \<Rightarrow> 'fs state \<Rightarrow> unit outcome \<times> 'fs state" where
  "logInProfile profileId st = (Restarted, save_LoggedInProfile profileId st)"

text \<open>
  createNewProfile (lines 94 to 129). The argument is \<open>None\<close> for a call without an id
  (\<^verbatim>\<open>undefined\<close>).
\<close>

definition createNewProfile ::
  "'fs env \<Rightarrow> string option \<Rightarrow> 'fs state \<Rightarrow> unit outcome \<times> 'fs state" where
  "createNewProfile e requested st =
     (let profileId0 = (case requested of
                          None \<Rightarrow> ''Main''
                        | Some p \<Rightarrow> if p = [] then ''Main'' else sanitizeFileName e p);
          activeProfiles = activeProfiles_or_empty st;
          profileId = collision_loop activeProfiles profileId0 1;
          st1 = save_ActiveProfiles (activeProfiles @ [profileId]) st;
          st2 = save_LoggedInProfile profileId st1
      in logInProfile profileId st2)"

text \<open>
  getLoggedInProfile (lines 134 to 162). When the settings have no LoggedInProfile the
  method logs in the first profile of the bootstrap list, or creates a profile when
  that list cannot be read; both restart. For an empty bootstrap list
  \<^verbatim>\<open>activeProfiles[0]\<close> is \<^verbatim>\<open>undefined\<close>: saving it leaves the key absent, as it was.
\<close>

definition getLoggedInProfile ::
  "'fs env \<Rightarrow> 'fs state \<Rightarrow> string option outcome \<times> 'fs state" where
  "getLoggedInProfile e st =
     (case loggedInUser st of
        Some u \<Rightarrow> (Returned (Some u), st)
      | None \<Rightarrow>
          (case LoggedInProfile (settings st) of
             Some p \<Rightarrow> (Returned (Some p), st\<lparr>loggedInUser := Some p\<rparr>)
           | None \<Rightarrow>
               (case bootstrapProfiles st of
                  Some [] \<Rightarrow> (Restarted, st)
                | Some (p # ps) \<Rightarrow> (Restarted, snd (logInProfile p st))
                | None \<Rightarrow> (Restarted, snd (createNewProfile e None st)))))"

text \<open>renameProfile (lines 164 to 193), the request phase of a rename.\<close>

definition renameProfile ::
  "'fs env \<Rightarrow> string \<Rightarrow> 'fs state \<Rightarrow> unit outcome \<times> 'fs state" where
  "renameProfile e newProfileId st =
     (case getLoggedInProfile e st of
        (Restarted, st1) \<Rightarrow> (Restarted, st1)
      | (Returned profileId, st1) \<Rightarrow>
          (let sanitizedNewProfileId = sanitizeFileName e newProfileId
           in if sanitizedNewProfileId = [] then (Returned (), st1)
              else (let activeProfiles = activeProfiles_or_empty st1;
                        target = collision_loop activeProfiles sanitizedNewProfileId 1
                    in (Restarted, st1\<lparr>profileToRename := Some target\<rparr>))))"


text \<open>
  handleProfileRename (lines 212 to 253), the apply phase of a rename. Reading
  ActiveProfiles throws when the key is absent, which the outer \<^verbatim>\<open>catch\<close> turns into
  a return; a throwing \<^verbatim>\<open>renameSync\<close> returns from the inner \<^verbatim>\<open>catch\<close>. No line of
  the method writes \<open>profileToRename\<close>.
\<close>

definition handleProfileRename :: "'fs env \<Rightarrow> 'fs state \<Rightarrow> unit outcome \<times> 'fs state" where
  "handleProfileRename e st =
     (if profileToRename st = None then (Returned (), st)
      else
        (case getLoggedInProfile e st of
           (Restarted, st1) \<Rightarrow> (Restarted, st1)
         | (Returned currentProfileId, st1) \<Rightarrow>
             (case ActiveProfiles (settings st1) of
                None \<Rightarrow> (Returned (), st1)
              | Some activeProfiles \<Rightarrow>
                  (case (currentProfileId, profileToRename st1) of
                     (Some cur, Some new) \<Rightarrow>
                       if new \<noteq> [] then
                         (case renameSync e (profilePath cur) (profilePath new) (fs st1) of
                            Threw fs' \<Rightarrow> (Returned (), st1\<lparr>fs := fs'\<rparr>)
                          | Done fs' \<Rightarrow>
                              (let profilePosition = indexOf activeProfiles cur;
                                   activeProfiles' = assign_at activeProfiles profilePosition new;
                                   st2 = save_ActiveProfiles activeProfiles' (st1\<lparr>fs := fs'\<rparr>);
                                   st3 = save_LoggedInProfile new st2
                               in (Returned (), st3)))
                       else (Returned (), st1)
                   | _ \<Rightarrow> (Returned (), st1)))))"

text \<open>
  handleProfileDeletion (lines 255 to 307), the apply phase of a deletion. When
  ActiveProfiles cannot be read the variable stays \<^verbatim>\<open>undefined\<close> and
  \<^verbatim>\<open>activeProfiles.indexOf\<close> throws after the folder was removed; that and a throwing
  \<^verbatim>\<open>deleteFolderRecursive\<close> end in the \<^verbatim>\<open>catch\<close> at the bottom, which only logs.
\<close>

definition handleProfileDeletion :: "'fs env \<Rightarrow> 'fs state \<Rightarrow> 'fs state" where
  "handleProfileDeletion e st =
     (case DeleteProfile (settings st) of
        None \<Rightarrow> st
      | Some deletedProfile \<Rightarrow>
          (case deleteFolderRecursive e (profilePath deletedProfile) (fs st) of
             Threw fs' \<Rightarrow> st\<lparr>fs := fs'\<rparr>
           | Done fs' \<Rightarrow>
               (case ActiveProfiles (settings st) of
                  None \<Rightarrow> st\<lparr>fs := fs'\<rparr>
                | Some activeProfiles \<Rightarrow>
                    (let st1 = st\<lparr>fs := fs'\<rparr>;
                         profilePosition = indexOf activeProfiles deletedProfile;
                         activeProfiles' = (if profilePosition > -1
                                            then splice1 activeProfiles profilePosition
                                            else activeProfiles);
                         st2 = (if profilePosition > -1
                                then save_ActiveProfiles activeProfiles' st1 else st1);
                         st3 = (if length activeProfiles' > 0
                                then save_LoggedInProfile (activeProfiles' ! 0) st2
                                else delete_LoggedInProfile st2)
                     in delete_DeleteProfile st3))))"

subsection \<open>A concrete environment\<close>

text \<open>
  To run the methods on concrete inputs the environment is instantiated: the directory
  tree is the set of the paths that exist, a rename throws when the source is missing
  or the target exists already, removing a folder that is missing is not an error, and
  the sanitizer drops the characters / ? < > : * | from the name.
\<close>

definition strip_illegal :: "string \<Rightarrow> string" where
  "strip_illegal s = filter (\<lambda>c. c \<notin> set ''/?<>:*|'') s"

definition dir_renameSync :: "string \<Rightarrow> string \<Rightarrow> string set \<Rightarrow> string set fs_result" where
  "dir_renameSync old new dirs =
     (if old \<in> dirs
      then (if new = old then Done dirs
            else if new \<in> dirs then Threw dirs
            else Done (insert new (dirs - {old})))
      else Threw dirs)"

definition dir_deleteFolderRecursive :: "string \<Rightarrow> string set \<Rightarrow> string set fs_result" where
  "dir_deleteFolderRecursive p dirs = Done (dirs - {p})"

definition dir_env :: "string set env" where
  "dir_env = \<lparr>sanitizeFileName = strip_illegal, renameSync = dir_renameSync,
               deleteFolderRecursive = dir_deleteFolderRecursive\<rparr>"

definition mk_state ::
  "string option \<Rightarrow> string list option \<Rightarrow> string option \<Rightarrow> string option \<Rightarrow>
   string option \<Rightarrow> string set \<Rightarrow> string set state" where
  "mk_state logged active deleting cached renaming dirs =
     \<lparr>settings = \<lparr>LoggedInProfile = logged, ActiveProfiles = active, DeleteProfile = deleting\<rparr>,
      loggedInUser = cached, profileToRename = renaming, bootstrapProfiles = None, fs = dirs\<rparr>"

section \<open>Properties\<close>

subsection \<open>The collision loop and the array helpers\<close>


lemma indexOf_notin: "x \<notin> set xs \<Longrightarrow> indexOf xs x = -1"
  by (induction xs) (auto simp: Let_def)



lemma assign_at_indexOf_notin: "x \<notin> set xs \<Longrightarrow> assign_at xs (indexOf xs x) v = xs"
  by (simp add: indexOf_notin assign_at_def)



lemma getLoggedInProfile_Returned:
  assumes "getLoggedInProfile e st = (Returned r, st1)"
  shows "st1 = st\<lparr>loggedInUser := r\<rparr> \<and> r \<noteq> None"
  using assms
  by (cases "loggedInUser st"; cases "LoggedInProfile (settings st)")
    (auto simp: getLoggedInProfile_def split: option.splits list.splits)

lemma activeProfiles_or_empty_simps [simp]:
  "activeProfiles_or_empty (st\<lparr>loggedInUser := u\<rparr>) = activeProfiles_or_empty st"
  "activeProfiles_or_empty (st\<lparr>profileToRename := r\<rparr>) = activeProfiles_or_empty st"
  "activeProfiles_or_empty (st\<lparr>fs := f\<rparr>) = activeProfiles_or_empty st"
  "activeProfiles_or_empty (save_LoggedInProfile v st) = activeProfiles_or_empty st"
  "activeProfiles_or_empty (save_DeleteProfile v st) = activeProfiles_or_empty st"
  "activeProfiles_or_empty (delete_LoggedInProfile st) = activeProfiles_or_empty st"
  "activeProfiles_or_empty (delete_DeleteProfile st) = activeProfiles_or_empty st"
  "activeProfiles_or_empty (save_ActiveProfiles xs st) = xs"
  by (simp_all add: activeProfiles_or_empty_def save_LoggedInProfile_def save_DeleteProfile_def
      delete_LoggedInProfile_def delete_DeleteProfile_def save_ActiveProfiles_def)








lemma handleProfileDeletion_absent:
  "DeleteProfile (settings st) = None \<Longrightarrow> handleProfileDeletion e st = st"
  by (simp add: handleProfileDeletion_def)




lemma handleProfileRename_resolved:
  assumes "getLoggedInProfile e st = (Returned (Some cur), st1)"
    and "profileToRename st = Some new"
  shows "handleProfileRename e st =
    (Returned (),
     (case ActiveProfiles (settings st) of
        None \<Rightarrow> st1
      | Some xs \<Rightarrow>
          if new = [] then st1
          else (case renameSync e (profilePath cur) (profilePath new) (fs st) of
                  Threw fs' \<Rightarrow> st1\<lparr>fs := fs'\<rparr>
                | Done fs' \<Rightarrow>
                    save_LoggedInProfile new
                      (save_ActiveProfiles (assign_at xs (indexOf xs cur) new) (st1\<lparr>fs := fs'\<rparr>)))))"
proof -
  from getLoggedInProfile_Returned [OF assms(1)]
  have st1: "st1 = st\<lparr>loggedInUser := Some cur\<rparr>" by simp
  show ?thesis
    using assms
    by (simp add: handleProfileRename_def st1 Let_def split: option.splits fs_result.splits)
qed

lemma getLoggedInProfile_profileToRename:
  "profileToRename (snd (getLoggedInProfile e st)) = profileToRename st"
  by (simp add: getLoggedInProfile_def createNewProfile_def logInProfile_def Let_def
      save_LoggedInProfile_def save_ActiveProfiles_def split: option.splits list.splits)

lemma handleProfileRename_profileToRename:
  "profileToRename (snd (handleProfileRename e st)) = profileToRename st"
proof (cases "profileToRename st")
  case None
  then show ?thesis by (simp add: handleProfileRename_def)
next
  case (Some new)
  obtain r st1 where g: "getLoggedInProfile e st = (r, st1)"
    by (cases "getLoggedInProfile e st")
  have keep: "profileToRename st1 = profileToRename st"
    using getLoggedInProfile_profileToRename [of e st] g by simp
  show ?thesis
  proof (cases r)
    case Restarted
    with g Some keep show ?thesis by (simp add: handleProfileRename_def)
  next
    case (Returned v)
    with g getLoggedInProfile_Returned [of e st v st1] obtain cur where v: "v = Some cur"
      by auto
    show ?thesis
      using keep
      by (simp add: handleProfileRename_resolved [OF g [unfolded Returned v] Some]
          save_LoggedInProfile_def save_ActiveProfiles_def
          split: option.splits fs_result.splits)
  qed
qed


subsection \<open>Running the methods on concrete states\<close>

lemmas run_defs = mk_state_def dir_env_def strip_illegal_def dir_renameSync_def
  dir_deleteFolderRecursive_def profilePath_def activeProfiles_or_empty_def
  save_LoggedInProfile_def save_ActiveProfiles_def save_DeleteProfile_def
  delete_LoggedInProfile_def delete_DeleteProfile_def

subsection \<open>Creating a profile\<close>

text \<open>
  C1. The spec lets the collision loop append 1, 2, 3, ... to the sanitized base, so that
  a request for "Main" with the active profiles "Main" and "Main1" resolves to "Main2".
  The loop appends the counter to the candidate of the round before: the request
  resolves to "Main12", which is what is added to ActiveProfiles and logged in.
\<close>

theorem createNewProfile_Main_Main1:
  "createNewProfile dir_env (Some ''Main'')
     (mk_state (Some ''Main'') (Some [''Main'', ''Main1'']) None (Some ''Main'') None {})
   = (Restarted,
      mk_state (Some ''Main12'') (Some [''Main'', ''Main1'', ''Main12'']) None
        (Some ''Main'') None {})"
proof -
  have loop: "collision_loop [''Main'', ''Main1''] ''Main'' 1 = ''Main12''"
    by code_simp
  show ?thesis
    by (simp add: createNewProfile_def logInProfile_def Let_def loop [unfolded One_nat_def] run_defs)
qed

subsection \<open>The apply phase of a deletion\<close>




subsection \<open>The apply phase of a rename\<close>

text \<open>
  C3, as the spec states it: the pending rename marker is cleared once the apply phase
  has run. It fails already on a rename that succeeds: the profile "A" is renamed to
  "B" and \<open>profileToRename\<close> is "B" as before.
\<close>

theorem handleProfileRename_marker_not_cleared:
  "profileToRename (mk_state (Some ''A'') (Some [''A'']) None (Some ''A'') (Some ''B'')
       {profilePath ''A''}) = Some ''B''
   \<and> profileToRename (snd (handleProfileRename dir_env
        (mk_state (Some ''A'') (Some [''A'']) None (Some ''A'') (Some ''B'')
           {profilePath ''A''}))) = Some ''B''"
  by (simp add: handleProfileRename_def getLoggedInProfile_def assign_at_def
      Let_def run_defs)

text \<open>
  C3, amended: the apply phase of a rename never writes the pending rename marker; after
  the phase, on success and on abort alike, \<open>profileToRename\<close> has the value it had
  before.
\<close>

theorem handleProfileRename_keeps_marker:
  "profileToRename (snd (handleProfileRename e st)) = profileToRename st"
  by (rule handleProfileRename_profileToRename)

text \<open>
  C4. When a rename is pending, the current profile id is resolved and the rename of the
  directory from the current id to the pending id throws, the apply phase returns with
  the settings as they were: ActiveProfiles and LoggedInProfile are what they were
  before the attempt.
\<close>

theorem handleProfileRename_failed_rename:
  assumes "profileToRename st = Some new"
    and "getLoggedInProfile e st = (Returned (Some cur), st1)"
    and "renameSync e (profilePath cur) (profilePath new) (fs st) = Threw fs'"
  shows "fst (handleProfileRename e st) = Returned ()
    \<and> ActiveProfiles (settings (snd (handleProfileRename e st))) = ActiveProfiles (settings st)
    \<and> LoggedInProfile (settings (snd (handleProfileRename e st))) = LoggedInProfile (settings st)
    \<and> settings (snd (handleProfileRename e st)) = settings st"
proof -
  from getLoggedInProfile_Returned [OF assms(2)]
  have st1: "st1 = st\<lparr>loggedInUser := Some cur\<rparr>" by simp
  show ?thesis
    by (simp add: handleProfileRename_resolved [OF assms(2) assms(1)] assms(3) st1
        split: option.splits)
qed

theorem handleProfileRename_failed_rename_witness:
  "profileToRename (mk_state (Some ''A'') (Some [''A'', ''B'']) None None (Some ''C'')
       {profilePath ''A'', profilePath ''C''}) = Some ''C''
   \<and> getLoggedInProfile dir_env (mk_state (Some ''A'') (Some [''A'', ''B'']) None None (Some ''C'')
       {profilePath ''A'', profilePath ''C''})
     = (Returned (Some ''A''), mk_state (Some ''A'') (Some [''A'', ''B'']) None (Some ''A'')
          (Some ''C'') {profilePath ''A'', profilePath ''C''})
   \<and> renameSync dir_env (profilePath ''A'') (profilePath ''C'')
        {profilePath ''A'', profilePath ''C''} = Threw {profilePath ''A'', profilePath ''C''}
   \<and> settings (snd (handleProfileRename dir_env
        (mk_state (Some ''A'') (Some [''A'', ''B'']) None None (Some ''C'')
           {profilePath ''A'', profilePath ''C''})))
     = \<lparr>LoggedInProfile = Some ''A'', ActiveProfiles = Some [''A'', ''B''], DeleteProfile = None\<rparr>"
  using handleProfileRename_failed_rename [of
      "mk_state (Some ''A'') (Some [''A'', ''B'']) None None (Some ''C'')
         {profilePath ''A'', profilePath ''C''}" "''C''" dir_env "''A''"
      "mk_state (Some ''A'') (Some [''A'', ''B'']) None (Some ''A'') (Some ''C'')
         {profilePath ''A'', profilePath ''C''}" "{profilePath ''A'', profilePath ''C''}"]
  by (simp add: getLoggedInProfile_def run_defs)

subsection \<open>The apply phase of a deletion, when it succeeds or has nothing to do\<close>




text \<open>
  C6. Without a DeleteProfile marker the apply phase of a deletion changes nothing,
  neither the settings nor the directory tree nor the memory of the process. Hence a
  second run, after a first run that cleared the marker, changes nothing any more.
\<close>

theorem handleProfileDeletion_no_marker:
  "(DeleteProfile (settings st) = None \<longrightarrow> handleProfileDeletion e st = st)
   \<and> (DeleteProfile (settings (handleProfileDeletion e st)) = None \<longrightarrow>
        handleProfileDeletion e (handleProfileDeletion e st) = handleProfileDeletion e st)"
  by (simp add: handleProfileDeletion_absent)

theorem handleProfileDeletion_no_marker_witness:
  "DeleteProfile (settings (mk_state (Some ''B'') (Some [''B'']) None None None
       {profilePath ''B''})) = None
   \<and> handleProfileDeletion dir_env
       (mk_state (Some ''B'') (Some [''B'']) None None None {profilePath ''B''})
     = mk_state (Some ''B'') (Some [''B'']) None None None {profilePath ''B''}
   \<and> DeleteProfile (settings (handleProfileDeletion dir_env
       (mk_state (Some ''A'') (Some [''A'', ''B'']) (Some ''A'') None None
          {profilePath ''A'', profilePath ''B''}))) = None
   \<and> handleProfileDeletion dir_env (handleProfileDeletion dir_env
       (mk_state (Some ''A'') (Some [''A'', ''B'']) (Some ''A'') None None
          {profilePath ''A'', profilePath ''B''}))
     = handleProfileDeletion dir_env
       (mk_state (Some ''A'') (Some [''A'', ''B'']) (Some ''A'') None None
          {profilePath ''A'', profilePath ''B''})"
proof -
  let ?idle = "mk_state (Some ''B'') (Some [''B'']) None None None {profilePath ''B''}"
  let ?marked = "mk_state (Some ''A'') (Some [''A'', ''B'']) (Some ''A'') None None
          {profilePath ''A'', profilePath ''B''}"
  have absent: "DeleteProfile (settings ?idle) = None"
    by (simp add: mk_state_def)
  have cleared: "DeleteProfile (settings (handleProfileDeletion dir_env ?marked)) = None"
    by (simp add: handleProfileDeletion_def Let_def run_defs)
  from absent handleProfileDeletion_no_marker [of ?idle dir_env]
  have once: "handleProfileDeletion dir_env ?idle = ?idle"
    by blast
  from cleared handleProfileDeletion_no_marker [of ?marked dir_env]
  have twice: "handleProfileDeletion dir_env (handleProfileDeletion dir_env ?marked)
      = handleProfileDeletion dir_env ?marked"
    by blast
  from absent once cleared twice show ?thesis
    by blast
qed

subsection \<open>Requests\<close>

text \<open>
  C7. When the current profile id is resolved (it is cached, or LoggedInProfile is in the
  settings) and the requested name sanitizes to the empty string, renameProfile returns
  without a restart and leaves the settings (ActiveProfiles, LoggedInProfile and
  DeleteProfile), the pending rename marker and the directory tree as they were; with a
  cached id the whole state is unchanged.
\<close>

theorem renameProfile_empty_target:
  assumes "loggedInUser st \<noteq> None \<or> LoggedInProfile (settings st) \<noteq> None"
    and "sanitizeFileName e newProfileId = []"
  shows "fst (renameProfile e newProfileId st) = Returned ()
    \<and> settings (snd (renameProfile e newProfileId st)) = settings st
    \<and> profileToRename (snd (renameProfile e newProfileId st)) = profileToRename st
    \<and> fs (snd (renameProfile e newProfileId st)) = fs st
    \<and> (loggedInUser st \<noteq> None \<longrightarrow> snd (renameProfile e newProfileId st) = st)"
  using assms
  by (auto simp: renameProfile_def getLoggedInProfile_def split: option.splits)

theorem renameProfile_empty_target_witness:
  "loggedInUser (mk_state (Some ''A'') (Some [''A'']) None (Some ''A'') None {profilePath ''A''})
     \<noteq> None
   \<and> sanitizeFileName dir_env ''???'' = []
   \<and> renameProfile dir_env ''???''
        (mk_state (Some ''A'') (Some [''A'']) None (Some ''A'') None {profilePath ''A''})
      = (Returned (),
         mk_state (Some ''A'') (Some [''A'']) None (Some ''A'') None {profilePath ''A''})"
  using renameProfile_empty_target [of
      "mk_state (Some ''A'') (Some [''A'']) None (Some ''A'') None {profilePath ''A''}"
      dir_env "''???''"]
  by (cases "renameProfile dir_env ''???''
        (mk_state (Some ''A'') (Some [''A'']) None (Some ''A'') None {profilePath ''A''})")
    (simp add: run_defs)

text \<open>
  C8. For every id, whether it is in ActiveProfiles or not, logInProfile saves it as
  LoggedInProfile and restarts; ActiveProfiles, the DeleteProfile marker, the pending
  rename marker, the cached id and the directory tree are unchanged.
\<close>

theorem logInProfile_unconditional:
  "fst (logInProfile profileId st) = Restarted
   \<and> LoggedInProfile (settings (snd (logInProfile profileId st))) = Some profileId
   \<and> ActiveProfiles (settings (snd (logInProfile profileId st))) = ActiveProfiles (settings st)
   \<and> DeleteProfile (settings (snd (logInProfile profileId st))) = DeleteProfile (settings st)
   \<and> profileToRename (snd (logInProfile profileId st)) = profileToRename st
   \<and> loggedInUser (snd (logInProfile profileId st)) = loggedInUser st
   \<and> fs (snd (logInProfile profileId st)) = fs st"
  by (simp add: logInProfile_def save_LoggedInProfile_def)

subsection \<open>Duplicates in ActiveProfiles\<close>




text \<open>
  C10. When a rename is pending, the rename of the directory succeeds and the current
  profile id is not an element of ActiveProfiles, \<^verbatim>\<open>indexOf\<close> yields -1 and the
  assignment changes no element: ActiveProfiles keeps its elements, while LoggedInProfile
  is set to the new id. If the new id is not in the list either, LoggedInProfile is
  then no element of ActiveProfiles.
\<close>

theorem handleProfileRename_unknown_current:
  assumes "profileToRename st = Some new" and "new \<noteq> []"
    and "getLoggedInProfile e st = (Returned (Some cur), st1)"
    and "ActiveProfiles (settings st) = Some xs"
    and "cur \<notin> set xs"
    and "renameSync e (profilePath cur) (profilePath new) (fs st) = Done fs'"
  shows "ActiveProfiles (settings (snd (handleProfileRename e st))) = Some xs
    \<and> LoggedInProfile (settings (snd (handleProfileRename e st))) = Some new
    \<and> (new \<notin> set xs \<longrightarrow>
        new \<notin> set (activeProfiles_or_empty (snd (handleProfileRename e st))))"
  using assms(2,4,5,6)
  by (simp add: handleProfileRename_resolved [OF assms(3) assms(1)] assign_at_indexOf_notin
      save_LoggedInProfile_def save_ActiveProfiles_def activeProfiles_or_empty_def)

theorem handleProfileRename_unknown_current_witness:
  "profileToRename (mk_state (Some ''Z'') (Some [''A'', ''B'']) None (Some ''Z'') (Some ''C'')
       {profilePath ''Z''}) = Some ''C''
   \<and> ''Z'' \<notin> set [''A'', ''B''] \<and> ''C'' \<notin> set [''A'', ''B'']
   \<and> renameSync dir_env (profilePath ''Z'') (profilePath ''C'') {profilePath ''Z''}
      = Done {profilePath ''C''}
   \<and> ActiveProfiles (settings (snd (handleProfileRename dir_env
        (mk_state (Some ''Z'') (Some [''A'', ''B'']) None (Some ''Z'') (Some ''C'')
           {profilePath ''Z''})))) = Some [''A'', ''B'']
   \<and> LoggedInProfile (settings (snd (handleProfileRename dir_env
        (mk_state (Some ''Z'') (Some [''A'', ''B'']) None (Some ''Z'') (Some ''C'')
           {profilePath ''Z''})))) = Some ''C''
   \<and> ''C'' \<notin> set (activeProfiles_or_empty (snd (handleProfileRename dir_env
        (mk_state (Some ''Z'') (Some [''A'', ''B'']) None (Some ''Z'') (Some ''C'')
           {profilePath ''Z''}))))"
  using handleProfileRename_unknown_current [of
      "mk_state (Some ''Z'') (Some [''A'', ''B'']) None (Some ''Z'') (Some ''C'')
         {profilePath ''Z''}" "''C''" dir_env "''Z''"
      "mk_state (Some ''Z'') (Some [''A'', ''B'']) None (Some ''Z'') (Some ''C'')
         {profilePath ''Z''}" "[''A'', ''B'']" "{profilePath ''C''}"]
  by (simp add: getLoggedInProfile_def run_defs)

end
